theory Spec2Isabelle
  imports Complex_Main "HOL-Library.Multiset"
begin

section \<open>Python values shared by the services\<close>

text \<open>
  Exceptions are values. Every handler of the services is \<^verbatim>\<open>except Exception as e\<close> and
  uses \<^verbatim>\<open>str(e)\<close> only, so an exception is its message.
\<close>

datatype py_exn = PyExn (exn_str: string)

text \<open>
  A \<^verbatim>\<open>datetime\<close> is the number of microseconds since 1970-01-01T00:00:00 (UTC), a
  \<^verbatim>\<open>timedelta\<close> a number of microseconds. A Python \<^verbatim>\<open>float\<close> is the real number it
  denotes: the services compare floats with \<^verbatim>\<open>>=\<close> and print them, nothing else. Printing
  a float (\<^verbatim>\<open>str\<close>, an f-string field) belongs to the interpreter; it is
  a parameter of the functions that print.
\<close>

type_synonym datetime = int
type_synonym timedelta = int

definition timedelta_hours :: "int \<Rightarrow> timedelta" where
  "timedelta_hours h = h * 3600000000"

definition timedelta_days :: "int \<Rightarrow> timedelta" where
  "timedelta_days d = d * 86400000000"

definition hour :: "datetime \<Rightarrow> int" where
  "hour t = (t div 3600000000) mod 24"

definition weekday :: "datetime \<Rightarrow> int" where
  \<comment> \<open>Monday is 0; 1970-01-01 was a Thursday.\<close>
  "weekday t = (t div 86400000000 + 3) mod 7"

text \<open>
  What the interpreter and the standard library compute from a float or a datetime when the
  services print one: \<^verbatim>\<open>str(x)\<close> (an f-string field \<^verbatim>\<open>{x}\<close>), \<^verbatim>\<open>format(x, '.3f')\<close> and
  \<^verbatim>\<open>t.strftime(fmt)\<close>.
\<close>

record py =
  str_float :: "real \<Rightarrow> string"
  format_3f :: "real \<Rightarrow> string"
  strftime :: "datetime \<Rightarrow> string \<Rightarrow> string"

definition str_bool :: "bool \<Rightarrow> string" where
  "str_bool b = (if b then ''True'' else ''False'')"

subsection \<open>\<^verbatim>\<open>str.title\<close> and \<^verbatim>\<open>str.upper\<close> on ASCII text\<close>

definition ascii_lowercase :: string where
  "ascii_lowercase = ''abcdefghijklmnopqrstuvwxyz''"

definition ascii_uppercase :: string where
  "ascii_uppercase = ''ABCDEFGHIJKLMNOPQRSTUVWXYZ''"

definition upper_char :: "char \<Rightarrow> char" where
  "upper_char c = (case map_of (zip ascii_lowercase ascii_uppercase) c of Some u \<Rightarrow> u | None \<Rightarrow> c)"

definition lower_char :: "char \<Rightarrow> char" where
  "lower_char c = (case map_of (zip ascii_uppercase ascii_lowercase) c of Some l \<Rightarrow> l | None \<Rightarrow> c)"

definition is_cased :: "char \<Rightarrow> bool" where
  "is_cased c = (c \<in> set ascii_lowercase \<or> c \<in> set ascii_uppercase)"

fun title_from :: "bool \<Rightarrow> string \<Rightarrow> string" where
  "title_from prev_cased [] = []"
| "title_from prev_cased (c # cs) =
     (if is_cased c
      then (if prev_cased then lower_char c else upper_char c) # title_from True cs
      else c # title_from False cs)"

definition title :: "string \<Rightarrow> string" where
  "title s = title_from False s"

definition upper :: "string \<Rightarrow> string" where
  "upper s = map upper_char s"

section \<open>models.py\<close>

text \<open>
  \<^verbatim>\<open>SensorReading\<close>, \<^verbatim>\<open>MLModel\<close> and \<^verbatim>\<open>AlertLog\<close>, one record per table. The primary
  keys are prefixed (\<open>sr_id\<close>, \<open>ml_id\<close>, \<open>al_id\<close>), and so is \<^verbatim>\<open>AlertLog.alert_level\<close>
  (\<open>al_alert_level\<close>), since the three classes share these column names.
\<close>

record SensorReading =
  sr_id :: nat
  timestamp :: datetime
  vibration :: real
  strain :: real
  temperature :: real
  is_anomaly :: bool
  anomaly_score :: real
  alert_level :: string
  alert_sent :: bool

datatype json = JFloat real | JInt int | JStr string

record MLModel =
  ml_id :: nat
  model_name :: string
  model_type :: string
  training_data_size :: nat
  accuracy_score :: "real option"
  created_at :: datetime
  is_active :: bool
  model_params :: "(string \<times> json) list"
    \<comment> \<open>the dict whose \<^verbatim>\<open>json.dumps\<close> text the column stores\<close>

record AlertLog =
  al_id :: nat
  reading_id :: nat
  alert_type :: string
  al_alert_level :: string
  recipient :: string
  message :: string
  sent_at :: datetime
  success :: bool
  error_message :: "string option"

text \<open>
  The relational store and the two gateways. \<open>mail_attempts\<close> and \<open>sms_attempts\<close> list
  the calls of \<^verbatim>\<open>mail.send\<close> and \<^verbatim>\<open>twilio_client.messages.create\<close> (recipient and body),
  whether or not the call raised: they are the delivery attempts.
\<close>

record world =
  sensor_readings :: "SensorReading list"
  ml_models :: "MLModel list"
  alert_logs :: "AlertLog list"
  mail_attempts :: "(string \<times> string) list"
  sms_attempts :: "(string \<times> string) list"

text \<open>An autoincrement primary key: one more than the largest key of the table.\<close>

definition next_id :: "nat list \<Rightarrow> nat" where
  "next_id ids = Suc (fold max ids 0)"

section \<open>config.py\<close>

record limits =
  warning :: real
  critical :: real

text \<open>
  \<^verbatim>\<open>Config.ALERT_THRESHOLDS\<close> is a dict literal; a dict iterates in insertion order, so it
  is the association list of its items in the order written.
\<close>

definition ALERT_THRESHOLDS :: "(string \<times> limits) list" where
  "ALERT_THRESHOLDS =
     [(''vibration'', \<lparr>warning = 2.0, critical = 2.5\<rparr>),
      (''strain'', \<lparr>warning = 0.5, critical = 0.7\<rparr>),
      (''temperature'', \<lparr>warning = 35.0, critical = 40.0\<rparr>)]"

definition ML_MODEL_RETRAIN_INTERVAL :: timedelta where
  "ML_MODEL_RETRAIN_INTERVAL = timedelta_hours 24"

definition ML_TRAINING_DATA_SIZE :: nat where
  "ML_TRAINING_DATA_SIZE = 1000"

section \<open>services/sensor\_service.py: \<^verbatim>\<open>SensorService.check_thresholds\<close>\<close>

text \<open>
  \<^verbatim>\<open>getattr(reading, sensor_type)\<close> for the float sensor columns; any other name raises.
  The table of config.py names the three sensor columns only.
\<close>

definition getattr_reading :: "SensorReading \<Rightarrow> string \<Rightarrow> py_exn + real" where
  "getattr_reading reading sensor_type =
     (if sensor_type = ''vibration'' then Inr (vibration reading)
      else if sensor_type = ''strain'' then Inr (strain reading)
      else if sensor_type = ''temperature'' then Inr (temperature reading)
      else Inl (PyExn (''SensorReading object has no float attribute '' @ sensor_type)))"

text \<open>
  The body of the \<^verbatim>\<open>for\<close> loop, run over the items of the table from the pair
  \<open>(alert_level, messages)\<close> reached so far.
\<close>

fun check_thresholds_loop ::
  "py \<Rightarrow> SensorReading \<Rightarrow> (string \<times> limits) list \<Rightarrow> string \<times> string list
     \<Rightarrow> py_exn + (string \<times> string list)" where
  "check_thresholds_loop p reading [] (level, messages) = Inr (level, messages)"
| "check_thresholds_loop p reading ((sensor_type, lims) # rest) (level, messages) =
     (case getattr_reading reading sensor_type of
        Inl e \<Rightarrow> Inl e
      | Inr val \<Rightarrow>
          if val \<ge> critical lims then
            check_thresholds_loop p reading rest
              (''critical'',
               messages @ [title sensor_type @ '' critical: '' @ str_float p val @ '' >= ''
                           @ str_float p (critical lims)])
          else if val \<ge> warning lims \<and> level \<noteq> ''critical'' then
            check_thresholds_loop p reading rest
              (''warning'',
               messages @ [title sensor_type @ '' warning: '' @ str_float p val @ '' >= ''
                           @ str_float p (warning lims)])
          else check_thresholds_loop p reading rest (level, messages))"

definition check_thresholds_with ::
  "py \<Rightarrow> (string \<times> limits) list \<Rightarrow> SensorReading
     \<Rightarrow> py_exn + (string \<times> string list)" where
  "check_thresholds_with p thresholds reading =
     check_thresholds_loop p reading thresholds (''normal'', [])"

definition check_thresholds ::
  "py \<Rightarrow> SensorReading \<Rightarrow> py_exn + (string \<times> string list)" where
  "check_thresholds p reading = check_thresholds_with p ALERT_THRESHOLDS reading"

section \<open>services/alert\_service.py\<close>

text \<open>
  What one call of the service meets outside the program: the mail configuration, whether
  the Twilio client was built, and which calls of a gateway or of the store raise.
  \<open>mail_send\<close> and \<open>messages_create\<close> are asked with the recipient; \<open>log_commit\<close> is the
  \<^verbatim>\<open>db.session.commit()\<close> of \<^verbatim>\<open>_log_alert\<close>, asked with the row; \<open>fatigue_count\<close> is the
  \<^verbatim>\<open>count()\<close> query of \<^verbatim>\<open>_check_alert_fatigue\<close>; \<open>sent_commit\<close> is the commit that
  ends \<^verbatim>\<open>check_and_send_alerts\<close>. \<open>None\<close> means that the call returns.
\<close>

record alert_env =
  MAIL_USERNAME :: "string option"
  mail_send :: "string \<Rightarrow> py_exn option"
  twilio_client :: bool
  messages_create :: "string \<Rightarrow> py_exn + string"
  log_commit :: "AlertLog \<Rightarrow> py_exn option"
  fatigue_count :: "py_exn option"
  sent_commit :: "py_exn option"

datatype send_result =
    SendError string
  | SendSuccess string "string option"

datatype dispatch_result =
    Message string
  | AlertsSent "(string \<times> string \<times> send_result) list"

definition join :: "string \<Rightarrow> string list \<Rightarrow> string" where
  "join sep xs = (case xs of [] \<Rightarrow> [] | y # ys \<Rightarrow> y @ concat (map (\<lambda>z. sep @ z) ys))"

definition degree_sign :: string where
  "degree_sign = [CHR 0xC2, CHR 0xB0]"

definition bullet :: string where
  "bullet = [CHR 0xE2, CHR 0x80, CHR 0xA2]"

text \<open>
  The f-string of \<^verbatim>\<open>send_email_alert\<close>: every line of the literal starts with the twelve
  spaces of the source's indentation, and the text ends with them.
\<close>

definition email_body :: "py \<Rightarrow> SensorReading \<Rightarrow> string \<Rightarrow> string list \<Rightarrow> string" where
  "email_body p reading level messages =
     (let nl = [CHR 0x0A]; ind = replicate 12 (CHR '' '') in
      concat (map (\<lambda>l. nl @ ind @ l)
        [''Structural Health Monitoring Alert'',
         [],
         ''Alert Level: '' @ upper level,
         ''Timestamp: '' @ strftime p (timestamp reading) ''%Y-%m-%d %H:%M:%S'',
         [],
         ''Sensor Readings:'',
         ''- Vibration: '' @ str_float p (vibration reading),
         ''- Strain: '' @ str_float p (strain reading),
         ''- Temperature: '' @ str_float p (temperature reading) @ degree_sign @ ''C'',
         [],
         ''Alert Messages:'',
         join nl (map (\<lambda>msg. bullet @ '' '' @ msg) messages),
         [],
         ''Anomaly Detection:'',
         ''- Is Anomaly: '' @ str_bool (is_anomaly reading),
         ''- Anomaly Score: '' @ format_3f p (anomaly_score reading),
         [],
         ''Please investigate immediately.'',
         [],
         ''---'',
         ''SHM System''])
      @ nl @ ind)"

definition sms_body :: "py \<Rightarrow> SensorReading \<Rightarrow> string \<Rightarrow> string list \<Rightarrow> string" where
  "sms_body p reading level messages =
     ''SHM '' @ upper level @ '' ALERT at '' @ strftime p (timestamp reading) ''%H:%M'' @ '': ''
     @ ''V:'' @ str_float p (vibration reading) @ '' S:'' @ str_float p (strain reading)
     @ '' T:'' @ str_float p (temperature reading) @ degree_sign @ ''C''
     @ (case messages of [] \<Rightarrow> [] | m # _ \<Rightarrow> '' - '' @ m)"

text \<open>
  \<^verbatim>\<open>_log_alert\<close>: the row is added and committed; when the commit raises, the handler rolls
  the session back and the row is not written. \<^verbatim>\<open>sent_at\<close> takes its default, the time of
  the insert. The method never raises.
\<close>

definition log_alert ::
  "alert_env \<Rightarrow> datetime \<Rightarrow> world \<Rightarrow> nat \<Rightarrow> string \<Rightarrow> string \<Rightarrow> string \<Rightarrow> string \<Rightarrow> bool
     \<Rightarrow> string option \<Rightarrow> world" where
  "log_alert env now w rid atype level recip msg ok err =
     (let alert_log = \<lparr>al_id = next_id (map al_id (alert_logs w)), reading_id = rid,
                        alert_type = atype, al_alert_level = level, recipient = recip,
                        message = msg, sent_at = now, success = ok, error_message = err\<rparr>
      in case log_commit env alert_log of
           None \<Rightarrow> w\<lparr>alert_logs := alert_logs w @ [alert_log]\<rparr>
         | Some e \<Rightarrow> w)"

definition send_email_alert ::
  "alert_env \<Rightarrow> py \<Rightarrow> datetime \<Rightarrow> world \<Rightarrow> SensorReading \<Rightarrow> string \<Rightarrow> string list \<Rightarrow> string
     \<Rightarrow> send_result \<times> world" where
  "send_email_alert env p now w reading level messages recip =
     (if MAIL_USERNAME env = None \<or> MAIL_USERNAME env = Some []
      then (SendError ''Email not configured'', w)
      else
        let body = email_body p reading level messages;
            w1 = w\<lparr>mail_attempts := mail_attempts w @ [(recip, body)]\<rparr>
        in case mail_send env recip of
             None \<Rightarrow>
               (SendSuccess ''Email sent successfully'' None,
                log_alert env now w1 (sr_id reading) ''email'' level recip body True None)
           | Some e \<Rightarrow>
               let error_msg = ''Error sending email alert: '' @ exn_str e
               in (SendError error_msg,
                   log_alert env now w1 (sr_id reading) ''email'' level recip [] False
                     (Some error_msg)))"

definition send_sms_alert ::
  "alert_env \<Rightarrow> py \<Rightarrow> datetime \<Rightarrow> world \<Rightarrow> SensorReading \<Rightarrow> string \<Rightarrow> string list \<Rightarrow> string
     \<Rightarrow> send_result \<times> world" where
  "send_sms_alert env p now w reading level messages recip =
     (if \<not> twilio_client env
      then (SendError ''Twilio not configured'', w)
      else
        let body = sms_body p reading level messages;
            w1 = w\<lparr>sms_attempts := sms_attempts w @ [(recip, body)]\<rparr>
        in case messages_create env recip of
             Inr sid \<Rightarrow>
               (SendSuccess ''SMS sent successfully'' (Some sid),
                log_alert env now w1 (sr_id reading) ''sms'' level recip body True None)
           | Inl e \<Rightarrow>
               let error_msg = ''Error sending SMS alert: '' @ exn_str e
               in (SendError error_msg,
                   log_alert env now w1 (sr_id reading) ''sms'' level recip [] False
                     (Some error_msg)))"

text \<open>
  \<^verbatim>\<open>_check_alert_fatigue\<close>: the rows of the level, not older than one hour, that succeeded
  are counted; when the query raises, the handler answers \<^verbatim>\<open>False\<close>.
\<close>

definition recent_alerts :: "datetime \<Rightarrow> world \<Rightarrow> string \<Rightarrow> nat" where
  "recent_alerts now w level =
     (let one_hour_ago = now - timedelta_hours 1
      in length (filter (\<lambda>a. al_alert_level a = level \<and> sent_at a \<ge> one_hour_ago \<and> success a)
                   (alert_logs w)))"

definition check_alert_fatigue :: "alert_env \<Rightarrow> datetime \<Rightarrow> world \<Rightarrow> string \<Rightarrow> bool" where
  "check_alert_fatigue env now w level =
     (case fatigue_count env of
        None \<Rightarrow> recent_alerts now w level \<ge> 5
      | Some e \<Rightarrow> False)"

definition email_recipients :: "string list" where
  "email_recipients = [''admin@example.com'']"

definition sms_recipients :: "string list" where
  "sms_recipients = [''+1234567890'']"

text \<open>The two \<^verbatim>\<open>for recipient in ...\<close> loops of \<^verbatim>\<open>check_and_send_alerts\<close>.\<close>

fun send_emails ::
  "alert_env \<Rightarrow> py \<Rightarrow> datetime \<Rightarrow> SensorReading \<Rightarrow> string \<Rightarrow> string list \<Rightarrow> string list
     \<Rightarrow> (string \<times> string \<times> send_result) list \<times> world
     \<Rightarrow> (string \<times> string \<times> send_result) list \<times> world" where
  "send_emails env p now reading level messages [] (results, w) = (results, w)"
| "send_emails env p now reading level messages (recip # rest) (results, w) =
     (let (result, w1) = send_email_alert env p now w reading level messages recip
      in send_emails env p now reading level messages rest
           (results @ [(''email'', recip, result)], w1))"

fun send_smss ::
  "alert_env \<Rightarrow> py \<Rightarrow> datetime \<Rightarrow> SensorReading \<Rightarrow> string \<Rightarrow> string list \<Rightarrow> string list
     \<Rightarrow> (string \<times> string \<times> send_result) list \<times> world
     \<Rightarrow> (string \<times> string \<times> send_result) list \<times> world" where
  "send_smss env p now reading level messages [] (results, w) = (results, w)"
| "send_smss env p now reading level messages (recip # rest) (results, w) =
     (let (result, w1) = send_sms_alert env p now w reading level messages recip
      in send_smss env p now reading level messages rest
           (results @ [(''sms'', recip, result)], w1))"

text \<open>
  \<^verbatim>\<open>check_and_send_alerts\<close> returns its dict, or raises when the last commit raises (the
  method has no handler). The reading is the object the caller holds: the method sets its
  \<^verbatim>\<open>alert_sent\<close>, and the commit writes the object to its row. When the commit raises,
  the session is rolled back and the object is as its row again, not marked; the rows of
  \<^verbatim>\<open>_log_alert\<close> were committed one by one and stay, and so do the deliveries.
\<close>

definition check_and_send_alerts ::
  "alert_env \<Rightarrow> py \<Rightarrow> datetime \<Rightarrow> world \<Rightarrow> SensorReading \<Rightarrow> string \<Rightarrow> string list
     \<Rightarrow> (py_exn + dispatch_result) \<times> SensorReading \<times> world" where
  "check_and_send_alerts env p now w reading level messages =
     (if level = ''normal'' then (Inr (Message ''No alerts needed''), reading, w)
      else if alert_sent reading
      then (Inr (Message ''Alert already sent for this reading''), reading, w)
      else if check_alert_fatigue env now w level
      then (Inr (Message ''Alert fatigue protection activated''), reading, w)
      else
        let (results1, w1) =
              send_emails env p now reading level messages email_recipients ([], w);
            (results2, w2) =
              (if level = ''critical''
               then send_smss env p now reading level messages sms_recipients (results1, w1)
               else (results1, w1));
            reading' = reading\<lparr>alert_sent := True\<rparr>
        in case sent_commit env of
             Some e \<Rightarrow> (Inl e, reading, w2)
           | None \<Rightarrow>
               (Inr (AlertsSent results2), reading',
                w2\<lparr>sensor_readings :=
                     map (\<lambda>r. if sr_id r = sr_id reading' then reading' else r)
                       (sensor_readings w2)\<rparr>))"

section \<open>services/ml\_service.py\<close>

text \<open>
  The fitted objects of scikit-learn are kept by what they were built from: a scaler by the
  array it was fitted on, an estimator by its hyperparameters and the array it was fitted
  on (\<open>None\<close> before \<^verbatim>\<open>fit\<close> has returned).
\<close>

datatype hyper =
    IsolationForest (contamination: real) (random_state: nat) (n_estimators: nat)
  | OneClassSVM (nu: real) (kernel: string) (gamma: string)

datatype StandardScaler = StandardScaler (scaler_fitted: "real list list option")

record estimator =
  hyper :: hyper
  fitted_X :: "real list list option"

text \<open>The attributes of an \<^verbatim>\<open>MLService\<close> object; \<^verbatim>\<open>self.model_type\<close> is never assigned again.\<close>

record MLService =
  model :: "estimator option"
  scaler :: "StandardScaler option"

definition self_model_type :: string where
  "self_model_type = ''IsolationForest''"

text \<open>
  What one call of the service meets outside the program: the numerics of scikit-learn
  (each may raise) and the calls of the store that raise. \<open>readings_query\<close> is the query of
  the training readings, \<open>model_commit\<close> the commit of the new \<^verbatim>\<open>MLModel\<close> row (asked with
  the row), \<open>models_query\<close> the query of \<^verbatim>\<open>retrain_if_needed\<close>, \<open>deactivate_commit\<close> its
  commit. \<open>None\<close> means that the call returns.
\<close>

record ml_env =
  sk_fit_transform :: "real list list \<Rightarrow> py_exn + real list list"
  sk_transform :: "real list list \<Rightarrow> real list list \<Rightarrow> py_exn + real list list"
  sk_fit :: "hyper \<Rightarrow> real list list \<Rightarrow> py_exn option"
  sk_predict :: "hyper \<Rightarrow> real list list \<Rightarrow> real list list \<Rightarrow> py_exn + int list"
  sk_decision_function :: "hyper \<Rightarrow> real list list \<Rightarrow> real list list \<Rightarrow> py_exn + real list"
  readings_query :: "py_exn option"
  model_commit :: "MLModel \<Rightarrow> py_exn option"
  models_query :: "py_exn option"
  deactivate_commit :: "py_exn option"

datatype ml_result =
    MLError string
  | Trained string nat nat nat
  | MLMessage string

definition is_error :: "ml_result \<Rightarrow> bool" where
  "is_error result = (case result of MLError _ \<Rightarrow> True | _ \<Rightarrow> False)"

definition features_of :: "SensorReading \<Rightarrow> real list" where
  "features_of reading =
     [vibration reading, strain reading, temperature reading,
      of_int (hour (timestamp reading)), of_int (weekday (timestamp reading))]"

definition prepare_training_data :: "SensorReading list \<Rightarrow> real list list \<times> nat list" where
  "prepare_training_data readings = (map features_of readings, map sr_id readings)"

text \<open>
  The query of both training methods: the readings of the last seven days, newest first,
  at most \<^verbatim>\<open>ML_TRAINING_DATA_SIZE\<close> of them.
\<close>

definition training_readings :: "datetime \<Rightarrow> world \<Rightarrow> SensorReading list" where
  "training_readings now w =
     (let cutoff_date = now - timedelta_days 7
      in take ML_TRAINING_DATA_SIZE
           (sort_key (\<lambda>r. - timestamp r)
              (filter (\<lambda>r. timestamp r \<ge> cutoff_date) (sensor_readings w))))"

text \<open>
  The two training methods differ in the estimator, in the name and the type of the row and
  in the parameters stored; \<open>train_model\<close> is their common text. Every exception ends in the
  handler, which rolls the session back and returns the error dict; what was assigned to
  \<^verbatim>\<open>self.scaler\<close> and \<^verbatim>\<open>self.model\<close> before the exception stays assigned.
\<close>

definition train_model ::
  "ml_env \<Rightarrow> py \<Rightarrow> datetime \<Rightarrow> hyper \<Rightarrow> string \<Rightarrow> string \<Rightarrow> (string \<times> json) list
     \<Rightarrow> MLService \<times> world \<Rightarrow> ml_result \<times> MLService \<times> world" where
  "train_model env p now hp name_prefix type_name params sw =
     (let self = fst sw; w = snd sw in
      case readings_query env of
        Some e \<Rightarrow> (MLError (exn_str e), self, w)
      | None \<Rightarrow>
         (let readings = training_readings now w in
          if length readings < 50 then (MLError ''Insufficient training data'', self, w)
          else
           (let features = fst (prepare_training_data readings);
                self1 = self\<lparr>scaler := Some (StandardScaler None)\<rparr>
            in case sk_fit_transform env features of
                 Inl e \<Rightarrow> (MLError (exn_str e), self1, w)
               | Inr features_scaled \<Rightarrow>
                  (let self2 = self1\<lparr>scaler := Some (StandardScaler (Some features)),
                                     model := Some \<lparr>hyper = hp, fitted_X = None\<rparr>\<rparr>
                   in case sk_fit env hp features_scaled of
                        Some e \<Rightarrow> (MLError (exn_str e), self2, w)
                      | None \<Rightarrow>
                         (let self3 = self2\<lparr>model :=
                                Some \<lparr>hyper = hp, fitted_X = Some features_scaled\<rparr>\<rparr>
                          in case sk_predict env hp features_scaled features_scaled of
                               Inl e \<Rightarrow> (MLError (exn_str e), self3, w)
                             | Inr predictions \<Rightarrow>
                                 (case sk_decision_function env hp features_scaled
                                         features_scaled of
                                    Inl e \<Rightarrow> (MLError (exn_str e), self3, w)
                                  | Inr anomaly_scores \<Rightarrow>
                                     (let model_record =
                                            \<lparr>ml_id = next_id (map ml_id (ml_models w)),
                                             model_name =
                                               name_prefix @ strftime p now ''%Y%m%d_%H%M%S'',
                                             model_type = type_name,
                                             training_data_size = length readings,
                                             accuracy_score = None,
                                             created_at = now,
                                             is_active = True,
                                             model_params = params\<rparr>
                                      in case model_commit env model_record of
                                           Some e \<Rightarrow> (MLError (exn_str e), self3, w)
                                         | None \<Rightarrow>
                                             (Trained type_name (length readings)
                                                (length (filter (\<lambda>q. q = - 1) predictions))
                                                (ml_id model_record),
                                              self3,
                                              w\<lparr>ml_models :=
                                                   ml_models w @ [model_record]\<rparr>))))))))"

definition train_isolation_forest ::
  "ml_env \<Rightarrow> py \<Rightarrow> datetime \<Rightarrow> MLService \<times> world \<Rightarrow> real \<Rightarrow> ml_result \<times> MLService \<times> world" where
  "train_isolation_forest env p now sw contamination_arg =
     train_model env p now (IsolationForest contamination_arg 42 100)
       ''isolation_forest_'' ''IsolationForest''
       [(''contamination'', JFloat contamination_arg), (''n_estimators'', JInt 100),
        (''random_state'', JInt 42)]
       sw"

definition train_one_class_svm ::
  "ml_env \<Rightarrow> py \<Rightarrow> datetime \<Rightarrow> MLService \<times> world \<Rightarrow> real \<Rightarrow> ml_result \<times> MLService \<times> world" where
  "train_one_class_svm env p now sw nu_arg =
     train_model env p now (OneClassSVM nu_arg ''rbf'' ''scale'')
       ''one_class_svm_'' ''OneClassSVM''
       [(''nu'', JFloat nu_arg), (''kernel'', JStr ''rbf''), (''gamma'', JStr ''scale'')]
       sw"

text \<open>
  The \<^verbatim>\<open>try\<close> block of \<^verbatim>\<open>predict_anomaly\<close>. A method of an object that is \<^verbatim>\<open>None\<close> or
  was never fitted raises, and so does \<^verbatim>\<open>[0]\<close> on an empty array.
\<close>

definition score_reading :: "ml_env \<Rightarrow> MLService \<Rightarrow> SensorReading \<Rightarrow> py_exn + (bool \<times> real)" where
  "score_reading env self reading =
     (let features = [features_of reading] in
      case scaler self of
        None \<Rightarrow> Inl (PyExn ''NoneType object has no attribute transform'')
      | Some sc \<Rightarrow>
          (case scaler_fitted sc of
             None \<Rightarrow> Inl (PyExn ''This StandardScaler instance is not fitted yet'')
           | Some X0 \<Rightarrow>
               (case sk_transform env X0 features of
                  Inl e \<Rightarrow> Inl e
                | Inr features_scaled \<Rightarrow>
                    (case model self of
                       None \<Rightarrow> Inl (PyExn ''NoneType object has no attribute predict'')
                     | Some est \<Rightarrow>
                         (case fitted_X est of
                            None \<Rightarrow> Inl (PyExn ''This estimator instance is not fitted yet'')
                          | Some X \<Rightarrow>
                              (case sk_predict env (hyper est) X features_scaled of
                                 Inl e \<Rightarrow> Inl e
                               | Inr [] \<Rightarrow> Inl (PyExn ''index 0 is out of bounds'')
                               | Inr (prediction # _) \<Rightarrow>
                                   (case sk_decision_function env (hyper est) X
                                           features_scaled of
                                      Inl e \<Rightarrow> Inl e
                                    | Inr [] \<Rightarrow> Inl (PyExn ''index 0 is out of bounds'')
                                    | Inr (score # _) \<Rightarrow>
                                        Inr (prediction = - 1, score))))))))"

text \<open>
  The truth value of an estimator, as \<^verbatim>\<open>not self.model\<close> asks for it. An Isolation Forest
  is an ensemble, and the truth value of an ensemble is that of its length, the number of
  the trees it was fitted with: before \<^verbatim>\<open>fit\<close> has returned there is no attribute
  \<^verbatim>\<open>estimators_\<close>, and the test raises. A One-Class SVM and a scaler define no length:
  they are true.
\<close>

definition estimator_bool :: "estimator \<Rightarrow> py_exn + bool" where
  "estimator_bool est =
     (case hyper est of
        IsolationForest c rs n \<Rightarrow>
          (case fitted_X est of
             None \<Rightarrow> Inl (PyExn ''IsolationForest object has no attribute estimators_'')
           | Some X \<Rightarrow> Inr (0 < n))
      | OneClassSVM v k g \<Rightarrow> Inr True)"

text \<open>
  The guard \<^verbatim>\<open>not self.model or not self.scaler\<close> of \<^verbatim>\<open>predict_anomaly\<close>, left to right:
  \<^verbatim>\<open>None\<close> is false, and the scaler is asked only when the model is true.
\<close>

definition model_or_scaler_missing :: "MLService \<Rightarrow> py_exn + bool" where
  "model_or_scaler_missing self =
     (case model self of
        None \<Rightarrow> Inr True
      | Some est \<Rightarrow>
          (case estimator_bool est of
             Inl e \<Rightarrow> Inl e
           | Inr b \<Rightarrow> if b then Inr (scaler self = None) else Inr True))"

text \<open>
  \<^verbatim>\<open>predict_anomaly\<close>. The guard stands before the \<^verbatim>\<open>try\<close>: what it raises leaves the
  method. Without a model or a scaler the Isolation Forest is trained first, with its
  default contamination; an error dict ends the call with \<^verbatim>\<open>(False, 0.0)\<close>, and so does
  every exception of the \<^verbatim>\<open>try\<close> block.
\<close>

definition predict_anomaly ::
  "ml_env \<Rightarrow> py \<Rightarrow> datetime \<Rightarrow> MLService \<times> world \<Rightarrow> SensorReading
     \<Rightarrow> (py_exn + (bool \<times> real)) \<times> MLService \<times> world" where
  "predict_anomaly env p now sw reading =
     (let self = fst sw; w = snd sw in
      case model_or_scaler_missing self of
        Inl e \<Rightarrow> (Inl e, self, w)
      | Inr missing \<Rightarrow>
          if missing then
            (let (result, self1, w1) = train_isolation_forest env p now (self, w) 0.1 in
             if is_error result then (Inr (False, 0), self1, w1)
             else
               (case score_reading env self1 reading of
                  Inl e \<Rightarrow> (Inr (False, 0), self1, w1)
                | Inr v \<Rightarrow> (Inr v, self1, w1)))
          else
            (case score_reading env self reading of
               Inl e \<Rightarrow> (Inr (False, 0), self, w)
             | Inr v \<Rightarrow> (Inr v, self, w)))"

text \<open>
  The query of \<^verbatim>\<open>retrain_if_needed\<close> and of \<^verbatim>\<open>get_model_info\<close>: the active rows of a
  type, newest first, the first of them.
\<close>

definition latest_active :: "world \<Rightarrow> string \<Rightarrow> MLModel option" where
  "latest_active w type_name =
     (case sort_key (\<lambda>m. - created_at m)
             (filter (\<lambda>m. model_type m = type_name \<and> is_active m) (ml_models w)) of
        [] \<Rightarrow> None
      | m # _ \<Rightarrow> Some m)"

definition deactivate :: "nat \<Rightarrow> world \<Rightarrow> world" where
  "deactivate i w =
     w\<lparr>ml_models := map (\<lambda>m. if ml_id m = i then m\<lparr>is_active := False\<rparr> else m) (ml_models w)\<rparr>"

definition retrain_if_needed ::
  "ml_env \<Rightarrow> py \<Rightarrow> datetime \<Rightarrow> MLService \<times> world \<Rightarrow> ml_result \<times> MLService \<times> world" where
  "retrain_if_needed env p now sw =
     (let self = fst sw; w = snd sw in
      case models_query env of
        Some e \<Rightarrow> (MLError (exn_str e), self, w)
      | None \<Rightarrow>
          (case latest_active w self_model_type of
             None \<Rightarrow> train_isolation_forest env p now (self, w) 0.1
           | Some latest_model \<Rightarrow>
              (let age = now - created_at latest_model in
               if age > ML_MODEL_RETRAIN_INTERVAL then
                 (case deactivate_commit env of
                    Some e \<Rightarrow> (MLError (exn_str e), self, w)
                  | None \<Rightarrow>
                      train_isolation_forest env p now
                        (self, deactivate (ml_id latest_model) w) 0.1)
               else (MLMessage ''Model is up to date'', self, w))))"

section \<open>Observations on the state\<close>

text \<open>
  The store and the gateways after the two loops of \<^verbatim>\<open>check_and_send_alerts\<close>, before its
  last commit: one e-mail to the only e-mail recipient, then one SMS to the only SMS
  recipient when the level is critical.
\<close>

definition world_after_sends ::
  "alert_env \<Rightarrow> py \<Rightarrow> datetime \<Rightarrow> world \<Rightarrow> SensorReading \<Rightarrow> string \<Rightarrow> string list \<Rightarrow> world" where
  "world_after_sends env p now w reading level messages =
     (let w1 = snd (send_email_alert env p now w reading level messages ''admin@example.com'')
      in if level = ''critical''
         then snd (send_sms_alert env p now w1 reading level messages ''+1234567890'')
         else w1)"

text \<open>The list \<^verbatim>\<open>results\<close> that the two loops build.\<close>

definition results_after_sends ::
  "alert_env \<Rightarrow> py \<Rightarrow> datetime \<Rightarrow> world \<Rightarrow> SensorReading \<Rightarrow> string \<Rightarrow> string list
     \<Rightarrow> (string \<times> string \<times> send_result) list" where
  "results_after_sends env p now w reading level messages =
     (let e = send_email_alert env p now w reading level messages ''admin@example.com''
      in (''email'', ''admin@example.com'', fst e) #
         (if level = ''critical''
          then [(''sms'', ''+1234567890'',
                 fst (send_sms_alert env p now (snd e) reading level messages ''+1234567890''))]
          else []))"

text \<open>The rows of \<^verbatim>\<open>ml_models\<close> of one type that are active.\<close>

definition active_snapshots :: "world \<Rightarrow> string \<Rightarrow> MLModel list" where
  "active_snapshots w type_name =
     filter (\<lambda>m. model_type m = type_name \<and> is_active m) (ml_models w)"

section \<open>Concrete inputs\<close>

text \<open>
  An interpreter given by a table of \<^verbatim>\<open>str\<close> on the floats of the scenarios, a critical
  reading (scenario A of the specification), gateways and a store that work, and the
  states the scenarios start from.
\<close>

definition sample_py :: py where
  "sample_py =
     \<lparr>str_float = (\<lambda>x. case map_of [(2.6, ''2.6''), (2.5, ''2.5''), (0.3, ''0.3''), (25, ''25.0'')] x of
                          Some s \<Rightarrow> s | None \<Rightarrow> []),
      format_3f = (\<lambda>x. ''0.000''),
      strftime = (\<lambda>t f. ''1970-01-01 00:00:00'')\<rparr>"

definition sample_reading :: SensorReading where
  "sample_reading =
     \<lparr>sr_id = 1, timestamp = 0, vibration = 2.6, strain = 0.3, temperature = 25,
      is_anomaly = False, anomaly_score = 0, alert_level = ''critical'', alert_sent = False\<rparr>"

definition sample_alert_env :: alert_env where
  "sample_alert_env =
     \<lparr>MAIL_USERNAME = Some ''shm@example.com'', mail_send = (\<lambda>recip. None),
      twilio_client = True, messages_create = (\<lambda>recip. Inr ''SM1''),
      log_commit = (\<lambda>row. None), fatigue_count = None, sent_commit = None\<rparr>"

text \<open>The store fails on the count query of the fatigue gate; both gateways are down.\<close>

definition store_outage_env :: alert_env where
  "store_outage_env = sample_alert_env\<lparr>fatigue_count := Some (PyExn ''database is locked'')\<rparr>"

definition gateways_outage_env :: alert_env where
  "gateways_outage_env =
     sample_alert_env\<lparr>mail_send := (\<lambda>recip. Some (PyExn ''Connection refused'')),
                        messages_create := (\<lambda>recip. Inl (PyExn ''Service unavailable''))\<rparr>"

definition warning_log :: "nat \<Rightarrow> AlertLog" where
  "warning_log i =
     \<lparr>al_id = i, reading_id = i, alert_type = ''email'', al_alert_level = ''warning'',
      recipient = ''admin@example.com'', message = [], sent_at = 0, success = True,
      error_message = None\<rparr>"

definition empty_world :: world where
  "empty_world =
     \<lparr>sensor_readings = [], ml_models = [], alert_logs = [], mail_attempts = [],
      sms_attempts = []\<rparr>"

text \<open>Five successful warning alerts at time 0.\<close>

definition fatigued_world :: world where
  "fatigued_world = empty_world\<lparr>alert_logs := map warning_log [1, 2, 3, 4, 5]\<rparr>"

text \<open>A scikit-learn that never raises, and a store that answers.\<close>

definition sample_ml_env :: ml_env where
  "sample_ml_env =
     \<lparr>sk_fit_transform = (\<lambda>X. Inr X),
      sk_transform = (\<lambda>X0 X. Inr X),
      sk_fit = (\<lambda>hp X. None),
      sk_predict = (\<lambda>hp X0 X. Inr (map (\<lambda>x. 1) X)),
      sk_decision_function = (\<lambda>hp X0 X. Inr (map (\<lambda>x. 0.1) X)),
      readings_query = None,
      model_commit = (\<lambda>row. None),
      models_query = None,
      deactivate_commit = None\<rparr>"

text \<open>A scikit-learn whose \<^verbatim>\<open>fit\<close> of the estimator raises.\<close>

definition fit_outage_env :: ml_env where
  "fit_outage_env =
     sample_ml_env\<lparr>sk_fit := (\<lambda>hp X. Some (PyExn ''The contamination parameter must be in (0, 0.5]''))\<rparr>"

text \<open>\<^verbatim>\<open>MLService()\<close>, as every route builds it.\<close>

definition new_service :: MLService where
  "new_service = \<lparr>model = None, scaler = None\<rparr>"

text \<open>Fifty readings at time 0, and no model yet.\<close>

definition training_world :: world where
  "training_world =
     empty_world\<lparr>sensor_readings := map (\<lambda>i. sample_reading\<lparr>sr_id := i\<rparr>) [1..<51]\<rparr>"

text \<open>One active Isolation Forest row written at time 0, and no reading.\<close>

definition old_snapshot :: MLModel where
  "old_snapshot =
     \<lparr>ml_id = 1, model_name = ''isolation_forest_19700101_000000'',
      model_type = ''IsolationForest'', training_data_size = 50, accuracy_score = None,
      created_at = 0, is_active = True,
      model_params = [(''contamination'', JFloat 0.1), (''n_estimators'', JInt 100),
                      (''random_state'', JInt 42)]\<rparr>"

definition stale_world :: world where
  "stale_world = empty_world\<lparr>ml_models := [old_snapshot]\<rparr>"

section \<open>The threshold evaluator\<close>

lemma title_vibration: "title ''vibration'' = ''Vibration''"
  by (simp add: title_def is_cased_def upper_char_def lower_char_def
      ascii_lowercase_def ascii_uppercase_def)

lemma loop_critical_sticks:
  "check_thresholds_loop p r ths (''critical'', ms) = Inr (lvl, ms') \<Longrightarrow> lvl = ''critical''"
  by (induction ths arbitrary: ms) (auto split: sum.splits if_splits)

lemma loop_critical_mem:
  "(k, lims) \<in> set ths \<Longrightarrow> getattr_reading r k = Inr v \<Longrightarrow> v \<ge> critical lims \<Longrightarrow>
   check_thresholds_loop p r ths (l0, ms) = Inr (lvl, ms') \<Longrightarrow> lvl = ''critical''"
proof (induction ths arbitrary: l0 ms)
  case Nil
  then show ?case by simp
next
  case (Cons a ths)
  obtain k' lims' where a: "a = (k', lims')" by (cases a)
  show ?case
  proof (cases "a = (k, lims)")
    case True
    with Cons.prems show ?thesis
      by (auto dest: loop_critical_sticks)
  next
    case False
    with Cons.prems have mem: "(k, lims) \<in> set ths" by auto
    from Cons.prems(4) a show ?thesis
      by (auto split: sum.splits if_splits intro: Cons.IH[OF mem Cons.prems(2,3)])
  qed
qed

lemma loop_returns:
  "\<forall>kl \<in> set ths. \<exists>v. getattr_reading r (fst kl) = Inr v \<Longrightarrow>
   \<exists>lvl ms. check_thresholds_loop p r ths acc = Inr (lvl, ms)"
proof (induction ths arbitrary: acc)
  case Nil
  then show ?case by (cases acc) simp
next
  case (Cons a ths)
  then show ?case
    by (cases a; cases acc) (auto split: sum.splits)
qed

text \<open>
  Claim C5. When one of the three metrics of a reading is at or above its critical floor in
  \<^verbatim>\<open>Config.ALERT_THRESHOLDS\<close>, the evaluation returns, and its level is \<^verbatim>\<open>critical\<close>,
  whatever the other two metrics are and in whatever order the items of the table are
  examined (\<open>thresholds\<close> is any rearrangement of the table).
\<close>

theorem critical_breach_gives_critical:
  assumes perm: "mset thresholds = mset ALERT_THRESHOLDS"
      and breach: "vibration r \<ge> 2.5 \<or> strain r \<ge> 0.7 \<or> temperature r \<ge> 40"
  shows "\<exists>messages. check_thresholds_with p thresholds r = Inr (''critical'', messages)"
proof -
  have set_eq: "set thresholds = set ALERT_THRESHOLDS"
    using perm by (rule mset_eq_setD)
  have keys: "\<forall>kl \<in> set thresholds. \<exists>v. getattr_reading r (fst kl) = Inr v"
    unfolding set_eq by (simp add: ALERT_THRESHOLDS_def getattr_reading_def)
  from loop_returns[OF keys] obtain lvl ms
    where res: "check_thresholds_loop p r thresholds (''normal'', []) = Inr (lvl, ms)"
    by blast
  have "\<exists>k lims v. (k, lims) \<in> set ALERT_THRESHOLDS \<and> getattr_reading r k = Inr v
            \<and> v \<ge> critical lims"
  proof -
    consider (vib) "vibration r \<ge> 2.5" | (str) "strain r \<ge> 0.7" | (tmp) "temperature r \<ge> 40"
      using breach by blast
    then show ?thesis
    proof cases
      case vib
      then show ?thesis
        by (intro exI[of _ "''vibration''"] exI[of _ "\<lparr>warning = 2.0, critical = 2.5\<rparr>"]
            exI[of _ "vibration r"]) (simp add: ALERT_THRESHOLDS_def getattr_reading_def)
    next
      case str
      then show ?thesis
        by (intro exI[of _ "''strain''"] exI[of _ "\<lparr>warning = 0.5, critical = 0.7\<rparr>"]
            exI[of _ "strain r"]) (simp add: ALERT_THRESHOLDS_def getattr_reading_def)
    next
      case tmp
      then show ?thesis
        by (intro exI[of _ "''temperature''"] exI[of _ "\<lparr>warning = 35.0, critical = 40.0\<rparr>"]
            exI[of _ "temperature r"]) (simp add: ALERT_THRESHOLDS_def getattr_reading_def)
    qed
  qed
  then obtain k lims v where
    "(k, lims) \<in> set thresholds" "getattr_reading r k = Inr v" "v \<ge> critical lims"
    unfolding set_eq by blast
  from loop_critical_mem[OF this res] have "lvl = ''critical''" .
  with res show ?thesis by (simp add: check_thresholds_with_def)
qed

theorem critical_breach_gives_critical_witness:
  "\<exists>messages. check_thresholds_with sample_py (rev ALERT_THRESHOLDS) sample_reading =
     Inr (''critical'', messages)"
  by (rule critical_breach_gives_critical) (simp_all add: sample_reading_def)

lemma scenario_A_shape:
  assumes "vibration r = 2.6" "strain r = 0.3" "temperature r = 25"
  shows "check_thresholds p r =
     Inr (''critical'', [''Vibration critical: '' @ str_float p 2.6 @ '' >= '' @ str_float p 2.5])"
proof -
  have g: "getattr_reading r ''vibration'' = Inr 2.6" "getattr_reading r ''strain'' = Inr 0.3"
    "getattr_reading r ''temperature'' = Inr 25"
    using assms by (simp_all add: getattr_reading_def)
  show ?thesis
    unfolding check_thresholds_def check_thresholds_with_def ALERT_THRESHOLDS_def
    by (simp add: g title_vibration)
qed

text \<open>
  Claim C9. The reading with vibration 2.6, strain 0.3 and temperature 25 is evaluated
  against the table of config.py to the level \<^verbatim>\<open>critical\<close> with the single message
  \<^verbatim>\<open>Vibration critical: 2.6 >= 2.5\<close>. The interpreter prints the floats 2.6 and 2.5 as
  \<^verbatim>\<open>2.6\<close> and \<^verbatim>\<open>2.5\<close>; this is the hypothesis on \<open>p\<close>.
\<close>

theorem scenario_A_vibration_critical:
  assumes "str_float p 2.6 = ''2.6''" and "str_float p 2.5 = ''2.5''"
      and "vibration r = 2.6" and "strain r = 0.3" and "temperature r = 25"
  shows "check_thresholds p r = Inr (''critical'', [''Vibration critical: 2.6 >= 2.5''])"
  unfolding scenario_A_shape[OF assms(3-5)] assms(1,2) by simp

theorem scenario_A_vibration_critical_witness:
  "check_thresholds sample_py sample_reading =
     Inr (''critical'', [''Vibration critical: 2.6 >= 2.5''])"
  by (rule scenario_A_vibration_critical) (simp_all add: sample_py_def sample_reading_def)

section \<open>The alert dispatcher and its fatigue gate\<close>

lemma send_emails_single:
  "send_emails env p now reading level messages [recip] (results, w) =
     (results @ [(''email'', recip, fst (send_email_alert env p now w reading level messages recip))],
      snd (send_email_alert env p now w reading level messages recip))"
  by (simp add: split_beta)

lemma send_smss_single:
  "send_smss env p now reading level messages [recip] (results, w) =
     (results @ [(''sms'', recip, fst (send_sms_alert env p now w reading level messages recip))],
      snd (send_sms_alert env p now w reading level messages recip))"
  by (simp add: split_beta)

lemma dispatch_send_path:
  assumes "level \<noteq> ''normal''" and "\<not> alert_sent reading"
      and "\<not> check_alert_fatigue env now w level"
  shows "sent_commit env = None \<Longrightarrow>
           check_and_send_alerts env p now w reading level messages =
             (Inr (AlertsSent (results_after_sends env p now w reading level messages)),
              reading\<lparr>alert_sent := True\<rparr>,
              (world_after_sends env p now w reading level messages)
                \<lparr>sensor_readings :=
                   map (\<lambda>r. if sr_id r = sr_id reading then reading\<lparr>alert_sent := True\<rparr> else r)
                     (sensor_readings (world_after_sends env p now w reading level messages))\<rparr>)"
    and "sent_commit env = Some e \<Longrightarrow>
           check_and_send_alerts env p now w reading level messages =
             (Inl e, reading, world_after_sends env p now w reading level messages)"
  using assms
  unfolding check_and_send_alerts_def email_recipients_def sms_recipients_def
    send_emails_single send_smss_single world_after_sends_def results_after_sends_def
  by (simp_all add: Let_def)

lemma dispatch_world_lists:
  assumes "level \<noteq> ''normal''" and "\<not> alert_sent reading"
      and "\<not> check_alert_fatigue env now w level"
  shows "alert_logs (snd (snd (check_and_send_alerts env p now w reading level messages))) =
         alert_logs (world_after_sends env p now w reading level messages)"
    and "mail_attempts (snd (snd (check_and_send_alerts env p now w reading level messages))) =
         mail_attempts (world_after_sends env p now w reading level messages)"
    and "sms_attempts (snd (snd (check_and_send_alerts env p now w reading level messages))) =
         sms_attempts (world_after_sends env p now w reading level messages)"
proof -
  show "alert_logs (snd (snd (check_and_send_alerts env p now w reading level messages))) =
         alert_logs (world_after_sends env p now w reading level messages)"
    by (cases "sent_commit env") (simp_all add: dispatch_send_path[OF assms])
  show "mail_attempts (snd (snd (check_and_send_alerts env p now w reading level messages))) =
         mail_attempts (world_after_sends env p now w reading level messages)"
    by (cases "sent_commit env") (simp_all add: dispatch_send_path[OF assms])
  show "sms_attempts (snd (snd (check_and_send_alerts env p now w reading level messages))) =
         sms_attempts (world_after_sends env p now w reading level messages)"
    by (cases "sent_commit env") (simp_all add: dispatch_send_path[OF assms])
qed

text \<open>What one call of \<^verbatim>\<open>send_email_alert\<close> and of \<^verbatim>\<open>send_sms_alert\<close> leaves.\<close>

lemma log_alert_attempts:
  "mail_attempts (log_alert env now w rid atype level recip msg ok err) = mail_attempts w"
  "sms_attempts (log_alert env now w rid atype level recip msg ok err) = sms_attempts w"
  by (simp_all add: log_alert_def Let_def split: option.splits)

lemma log_alert_logs:
  "set (alert_logs w) \<subseteq> set (alert_logs (log_alert env now w rid atype level recip msg ok err))"
  by (auto simp: log_alert_def Let_def split: option.splits)

lemma log_alert_row:
  "\<forall>row. log_commit env row = None \<Longrightarrow>
   alert_logs (log_alert env now w rid atype level recip msg ok err) =
     alert_logs w @
       [\<lparr>al_id = next_id (map al_id (alert_logs w)), reading_id = rid, alert_type = atype,
         al_alert_level = level, recipient = recip, message = msg, sent_at = now,
         success = ok, error_message = err\<rparr>]"
  by (simp add: log_alert_def Let_def)

lemma send_email_alert_mail_attempts:
  "MAIL_USERNAME env \<noteq> None \<Longrightarrow> MAIL_USERNAME env \<noteq> Some [] \<Longrightarrow>
   mail_attempts (snd (send_email_alert env p now w reading level messages recip)) =
     mail_attempts w @ [(recip, email_body p reading level messages)]"
  by (simp add: send_email_alert_def Let_def log_alert_attempts split: option.splits)

lemma send_email_alert_sms_attempts:
  "sms_attempts (snd (send_email_alert env p now w reading level messages recip)) = sms_attempts w"
  by (simp add: send_email_alert_def Let_def log_alert_attempts split: option.splits)

lemma send_email_alert_failure_result:
  "MAIL_USERNAME env \<noteq> None \<Longrightarrow> MAIL_USERNAME env \<noteq> Some [] \<Longrightarrow>
   mail_send env recip = Some e \<Longrightarrow>
   fst (send_email_alert env p now w reading level messages recip) =
     SendError (''Error sending email alert: '' @ exn_str e)"
  by (simp add: send_email_alert_def Let_def)

lemma send_email_alert_failure_row:
  assumes "MAIL_USERNAME env \<noteq> None" and "MAIL_USERNAME env \<noteq> Some []"
      and "mail_send env recip = Some e" and "\<forall>row. log_commit env row = None"
  shows "alert_logs (snd (send_email_alert env p now w reading level messages recip)) =
           alert_logs w @
             [\<lparr>al_id = next_id (map al_id (alert_logs w)), reading_id = sr_id reading,
               alert_type = ''email'', al_alert_level = level, recipient = recip,
               message = [], sent_at = now, success = False,
               error_message = Some (''Error sending email alert: '' @ exn_str e)\<rparr>]"
  using assms by (simp add: send_email_alert_def Let_def log_alert_row)

lemma send_sms_alert_logs:
  "set (alert_logs w) \<subseteq> set (alert_logs (snd (send_sms_alert env p now w reading level messages recip)))"
  by (auto simp: send_sms_alert_def log_alert_def Let_def split: sum.splits option.splits)

lemma send_sms_alert_mail_attempts:
  "mail_attempts (snd (send_sms_alert env p now w reading level messages recip)) = mail_attempts w"
  by (simp add: send_sms_alert_def Let_def log_alert_attempts split: sum.splits)

lemma send_sms_alert_sms_attempts:
  "twilio_client env \<Longrightarrow>
   sms_attempts (snd (send_sms_alert env p now w reading level messages recip)) =
     sms_attempts w @ [(recip, sms_body p reading level messages)]"
  by (simp add: send_sms_alert_def Let_def log_alert_attempts split: sum.splits)

lemma send_sms_alert_failure_result:
  "twilio_client env \<Longrightarrow> messages_create env recip = Inl e \<Longrightarrow>
   fst (send_sms_alert env p now w reading level messages recip) =
     SendError (''Error sending SMS alert: '' @ exn_str e)"
  by (simp add: send_sms_alert_def Let_def)

lemma send_sms_alert_failure_row:
  assumes "twilio_client env" and "messages_create env recip = Inl e"
      and "\<forall>row. log_commit env row = None"
  shows "alert_logs (snd (send_sms_alert env p now w reading level messages recip)) =
           alert_logs w @
             [\<lparr>al_id = next_id (map al_id (alert_logs w)), reading_id = sr_id reading,
               alert_type = ''sms'', al_alert_level = level, recipient = recip,
               message = [], sent_at = now, success = False,
               error_message = Some (''Error sending SMS alert: '' @ exn_str e)\<rparr>]"
  using assms by (simp add: send_sms_alert_def Let_def log_alert_row)

lemma send_email_alert_attempt:
  "MAIL_USERNAME env \<noteq> None \<Longrightarrow> MAIL_USERNAME env \<noteq> Some [] \<Longrightarrow>
   (recip, email_body p reading level messages)
     \<in> set (mail_attempts (snd (send_email_alert env p now w reading level messages recip)))"
  by (simp add: send_email_alert_mail_attempts)

lemma world_after_sends_logs:
  "set (alert_logs (snd (send_email_alert env p now w reading level messages ''admin@example.com'')))
     \<subseteq> set (alert_logs (world_after_sends env p now w reading level messages))"
  unfolding world_after_sends_def Let_def using send_sms_alert_logs by auto

lemma world_after_sends_mail:
  "mail_attempts (world_after_sends env p now w reading level messages) =
   mail_attempts (snd (send_email_alert env p now w reading level messages ''admin@example.com''))"
  unfolding world_after_sends_def Let_def by (simp add: send_sms_alert_mail_attempts)

lemma world_after_sends_sms:
  "level = ''critical'' \<Longrightarrow> twilio_client env \<Longrightarrow>
   sms_attempts (world_after_sends env p now w reading level messages) =
     sms_attempts w @ [(''+1234567890'', sms_body p reading level messages)]"
  unfolding world_after_sends_def Let_def
  by (simp add: send_sms_alert_sms_attempts send_email_alert_sms_attempts)

lemma results_after_sends_channels:
  "map (\<lambda>(t, r, res). (t, r)) (results_after_sends env p now w reading level messages) =
     (''email'', ''admin@example.com'') #
     (if level = ''critical'' then [(''sms'', ''+1234567890'')] else [])"
  by (simp add: results_after_sends_def Let_def)

lemma email_failure_in_logs:
  assumes "MAIL_USERNAME env \<noteq> None" and "MAIL_USERNAME env \<noteq> Some []"
      and "mail_send env ''admin@example.com'' = Some e" and "\<forall>row. log_commit env row = None"
  shows "\<exists>a. a \<in> set (alert_logs (world_after_sends env p now w reading level messages))
           \<and> reading_id a = sr_id reading \<and> alert_type a = ''email'' \<and> al_alert_level a = level
           \<and> recipient a = ''admin@example.com'' \<and> \<not> success a
           \<and> error_message a = Some (''Error sending email alert: '' @ exn_str e)"
proof -
  let ?row = "\<lparr>al_id = next_id (map al_id (alert_logs w)), reading_id = sr_id reading,
               alert_type = ''email'', al_alert_level = level, recipient = ''admin@example.com'',
               message = [], sent_at = now, success = False,
               error_message = Some (''Error sending email alert: '' @ exn_str e)\<rparr>"
  have "?row \<in> set (alert_logs (snd (send_email_alert env p now w reading level messages
                 ''admin@example.com'')))"
    unfolding send_email_alert_failure_row[OF assms] by simp
  then have "?row \<in> set (alert_logs (world_after_sends env p now w reading level messages))"
    using world_after_sends_logs by blast
  then show ?thesis by (intro exI[of _ ?row] conjI) simp_all
qed

lemma sms_failure_in_logs:
  assumes "level = ''critical''" and "twilio_client env"
      and "messages_create env ''+1234567890'' = Inl e" and "\<forall>row. log_commit env row = None"
  shows "\<exists>a. a \<in> set (alert_logs (world_after_sends env p now w reading level messages))
           \<and> reading_id a = sr_id reading \<and> alert_type a = ''sms'' \<and> al_alert_level a = level
           \<and> recipient a = ''+1234567890'' \<and> \<not> success a
           \<and> error_message a = Some (''Error sending SMS alert: '' @ exn_str e)"
proof -
  let ?w1 = "snd (send_email_alert env p now w reading level messages ''admin@example.com'')"
  let ?row = "\<lparr>al_id = next_id (map al_id (alert_logs ?w1)), reading_id = sr_id reading,
               alert_type = ''sms'', al_alert_level = level, recipient = ''+1234567890'',
               message = [], sent_at = now, success = False,
               error_message = Some (''Error sending SMS alert: '' @ exn_str e)\<rparr>"
  have w: "world_after_sends env p now w reading level messages =
             snd (send_sms_alert env p now ?w1 reading level messages ''+1234567890'')"
    using assms(1) by (simp add: world_after_sends_def Let_def)
  have "?row \<in> set (alert_logs (world_after_sends env p now w reading level messages))"
    unfolding w send_sms_alert_failure_row[OF assms(2-4)] by simp
  then show ?thesis by (intro exI[of _ ?row] conjI) simp_all
qed

lemma fatigued_world_count: "recent_alerts 0 fatigued_world ''warning'' = 5"
  unfolding recent_alerts_def fatigued_world_def empty_world_def
  by (simp add: warning_log_def timedelta_hours_def)

lemma empty_world_not_fatigued: "\<not> check_alert_fatigue env now empty_world level"
  by (simp add: check_alert_fatigue_def recent_alerts_def empty_world_def split: option.splits)

text \<open>
  When the last commit raises, the dispatch raises after its deliveries, and the reading
  is not marked sent.
\<close>

lemma dispatch_commit_raises:
  assumes "level \<noteq> ''normal''" and "\<not> alert_sent reading"
      and "\<not> check_alert_fatigue env now w level" and "sent_commit env = Some e"
  shows "fst (check_and_send_alerts env p now w reading level messages) = Inl e"
    and "fst (snd (check_and_send_alerts env p now w reading level messages)) = reading"
  by (simp_all add: dispatch_send_path(2)[OF assms])

text \<open>
  Claim C3. A reading that is not marked sent is dispatched at the level \<^verbatim>\<open>warning\<close> or
  \<^verbatim>\<open>critical\<close>; the count query of the fatigue gate returns and counts five or more
  successful alerts of that level in the last hour. Then the dispatch is suppressed: it
  returns the fatigue message, and the reading (its \<^verbatim>\<open>alert_sent\<close> too), the alert log and
  the lists of delivery attempts are as before.
\<close>

theorem dispatch_suppressed_at_fatigue_cap:
  assumes "\<not> alert_sent reading" and "level = ''warning'' \<or> level = ''critical''"
      and "fatigue_count env = None" and "5 \<le> recent_alerts now w level"
  shows "check_and_send_alerts env p now w reading level messages =
           (Inr (Message ''Alert fatigue protection activated''), reading, w)"
  using assms by (auto simp: check_and_send_alerts_def check_alert_fatigue_def)

theorem dispatch_suppressed_at_fatigue_cap_witness:
  "check_and_send_alerts sample_alert_env sample_py 0 fatigued_world sample_reading ''warning'' [] =
     (Inr (Message ''Alert fatigue protection activated''), sample_reading, fatigued_world)"
proof (rule dispatch_suppressed_at_fatigue_cap)
  show "\<not> alert_sent sample_reading" by (simp add: sample_reading_def)
  show "''warning'' = ''warning'' \<or> ''warning'' = ''critical''" by simp
  show "fatigue_count sample_alert_env = None" by (simp add: sample_alert_env_def)
  show "5 \<le> recent_alerts 0 fatigued_world ''warning''" by (simp add: fatigued_world_count)
qed



text \<open>
  Claim C6. A reading that is not marked sent is dispatched at a level other than
  \<^verbatim>\<open>normal\<close> and passes the fatigue gate; the commit that ends the dispatch returns.
  Then, whatever the two gateways and the commits of the log rows do, the dispatch returns
  the list of its attempts, one entry for the e-mail and, at the level \<^verbatim>\<open>critical\<close>, one
  for the SMS, and the reading is marked sent. Every configured channel was attempted:
  the e-mail was handed to the mail gateway and, at the level \<^verbatim>\<open>critical\<close>, the SMS to
  Twilio. A delivery that the gateway refuses is an error entry of the list and, the
  commit of the log rows returning, a failed row of the alert log with the error.
\<close>

theorem dispatch_marks_sent_despite_failures:
  assumes "level \<noteq> ''normal''" and "\<not> alert_sent reading"
      and "\<not> check_alert_fatigue env now w level" and "sent_commit env = None"
  shows "fst (snd (check_and_send_alerts env p now w reading level messages)) =
           reading\<lparr>alert_sent := True\<rparr>
       \<and> (\<exists>results. fst (check_and_send_alerts env p now w reading level messages) =
              Inr (AlertsSent results)
            \<and> map (\<lambda>(t, r, res). (t, r)) results =
                (''email'', ''admin@example.com'') #
                (if level = ''critical'' then [(''sms'', ''+1234567890'')] else [])
            \<and> (MAIL_USERNAME env \<noteq> None \<and> MAIL_USERNAME env \<noteq> Some []
                 \<and> mail_send env ''admin@example.com'' = Some e \<longrightarrow>
                 (''email'', ''admin@example.com'',
                  SendError (''Error sending email alert: '' @ exn_str e)) \<in> set results)
            \<and> (level = ''critical'' \<and> twilio_client env
                 \<and> messages_create env ''+1234567890'' = Inl e2 \<longrightarrow>
                 (''sms'', ''+1234567890'',
                  SendError (''Error sending SMS alert: '' @ exn_str e2)) \<in> set results))
       \<and> (MAIL_USERNAME env \<noteq> None \<and> MAIL_USERNAME env \<noteq> Some [] \<longrightarrow>
            mail_attempts (snd (snd (check_and_send_alerts env p now w reading level messages))) =
              mail_attempts w @ [(''admin@example.com'', email_body p reading level messages)])
       \<and> (level = ''critical'' \<and> twilio_client env \<longrightarrow>
            sms_attempts (snd (snd (check_and_send_alerts env p now w reading level messages))) =
              sms_attempts w @ [(''+1234567890'', sms_body p reading level messages)])
       \<and> (MAIL_USERNAME env \<noteq> None \<and> MAIL_USERNAME env \<noteq> Some []
            \<and> mail_send env ''admin@example.com'' = Some e \<and> (\<forall>row. log_commit env row = None) \<longrightarrow>
            (\<exists>a. a \<in> set (alert_logs (snd (snd
                 (check_and_send_alerts env p now w reading level messages))))
               \<and> reading_id a = sr_id reading \<and> alert_type a = ''email''
               \<and> al_alert_level a = level \<and> recipient a = ''admin@example.com'' \<and> \<not> success a
               \<and> error_message a = Some (''Error sending email alert: '' @ exn_str e)))
       \<and> (level = ''critical'' \<and> twilio_client env
            \<and> messages_create env ''+1234567890'' = Inl e2 \<and> (\<forall>row. log_commit env row = None) \<longrightarrow>
            (\<exists>a. a \<in> set (alert_logs (snd (snd
                 (check_and_send_alerts env p now w reading level messages))))
               \<and> reading_id a = sr_id reading \<and> alert_type a = ''sms''
               \<and> al_alert_level a = level \<and> recipient a = ''+1234567890'' \<and> \<not> success a
               \<and> error_message a = Some (''Error sending SMS alert: '' @ exn_str e2)))"
proof -
  note path = dispatch_send_path(1)[OF assms(1-3) assms(4), of p messages]
  note lists = dispatch_world_lists[OF assms(1-3), of p messages]
  have marked: "fst (snd (check_and_send_alerts env p now w reading level messages)) =
           reading\<lparr>alert_sent := True\<rparr>"
    by (simp add: path)
  have email_entry: "(''email'', ''admin@example.com'',
        SendError (''Error sending email alert: '' @ exn_str e))
          \<in> set (results_after_sends env p now w reading level messages)"
    if "MAIL_USERNAME env \<noteq> None \<and> MAIL_USERNAME env \<noteq> Some []
          \<and> mail_send env ''admin@example.com'' = Some e"
    using that by (simp add: results_after_sends_def Let_def send_email_alert_failure_result)
  have sms_entry: "(''sms'', ''+1234567890'',
        SendError (''Error sending SMS alert: '' @ exn_str e2))
          \<in> set (results_after_sends env p now w reading level messages)"
    if "level = ''critical'' \<and> twilio_client env
          \<and> messages_create env ''+1234567890'' = Inl e2"
    using that by (simp add: results_after_sends_def Let_def send_sms_alert_failure_result)
  have returned: "\<exists>results. fst (check_and_send_alerts env p now w reading level messages) =
              Inr (AlertsSent results)
            \<and> map (\<lambda>(t, r, res). (t, r)) results =
                (''email'', ''admin@example.com'') #
                (if level = ''critical'' then [(''sms'', ''+1234567890'')] else [])
            \<and> (MAIL_USERNAME env \<noteq> None \<and> MAIL_USERNAME env \<noteq> Some []
                 \<and> mail_send env ''admin@example.com'' = Some e \<longrightarrow>
                 (''email'', ''admin@example.com'',
                  SendError (''Error sending email alert: '' @ exn_str e)) \<in> set results)
            \<and> (level = ''critical'' \<and> twilio_client env
                 \<and> messages_create env ''+1234567890'' = Inl e2 \<longrightarrow>
                 (''sms'', ''+1234567890'',
                  SendError (''Error sending SMS alert: '' @ exn_str e2)) \<in> set results)"
  proof (intro exI[of _ "results_after_sends env p now w reading level messages"] conjI impI)
    show "fst (check_and_send_alerts env p now w reading level messages) =
            Inr (AlertsSent (results_after_sends env p now w reading level messages))"
      by (simp add: path)
    show "map (\<lambda>(t, r, res). (t, r)) (results_after_sends env p now w reading level messages) =
            (''email'', ''admin@example.com'') #
            (if level = ''critical'' then [(''sms'', ''+1234567890'')] else [])"
      by (rule results_after_sends_channels)
  qed (rule email_entry, assumption, rule sms_entry, assumption)
  have mail: "mail_attempts (snd (snd (check_and_send_alerts env p now w reading level messages))) =
              mail_attempts w @ [(''admin@example.com'', email_body p reading level messages)]"
    if "MAIL_USERNAME env \<noteq> None \<and> MAIL_USERNAME env \<noteq> Some []"
    unfolding lists(2) world_after_sends_mail
    using that by (simp add: send_email_alert_mail_attempts)
  have sms: "sms_attempts (snd (snd (check_and_send_alerts env p now w reading level messages))) =
              sms_attempts w @ [(''+1234567890'', sms_body p reading level messages)]"
    if "level = ''critical'' \<and> twilio_client env"
    unfolding lists(3) using that by (simp add: world_after_sends_sms)
  have email_row: "\<exists>a. a \<in> set (alert_logs (snd (snd
                 (check_and_send_alerts env p now w reading level messages))))
               \<and> reading_id a = sr_id reading \<and> alert_type a = ''email''
               \<and> al_alert_level a = level \<and> recipient a = ''admin@example.com'' \<and> \<not> success a
               \<and> error_message a = Some (''Error sending email alert: '' @ exn_str e)"
    if "MAIL_USERNAME env \<noteq> None \<and> MAIL_USERNAME env \<noteq> Some []
            \<and> mail_send env ''admin@example.com'' = Some e \<and> (\<forall>row. log_commit env row = None)"
    unfolding lists(1) using that by (intro email_failure_in_logs) simp_all
  have sms_row: "\<exists>a. a \<in> set (alert_logs (snd (snd
                 (check_and_send_alerts env p now w reading level messages))))
               \<and> reading_id a = sr_id reading \<and> alert_type a = ''sms''
               \<and> al_alert_level a = level \<and> recipient a = ''+1234567890'' \<and> \<not> success a
               \<and> error_message a = Some (''Error sending SMS alert: '' @ exn_str e2)"
    if "level = ''critical'' \<and> twilio_client env
            \<and> messages_create env ''+1234567890'' = Inl e2 \<and> (\<forall>row. log_commit env row = None)"
    unfolding lists(1) using that by (intro sms_failure_in_logs) simp_all
  show ?thesis
    by (intro conjI impI) (rule marked returned | erule mail sms email_row sms_row)+
qed

theorem dispatch_marks_sent_despite_failures_witness:
  "fst (snd (check_and_send_alerts gateways_outage_env sample_py 0 empty_world
       sample_reading ''critical'' [])) = sample_reading\<lparr>alert_sent := True\<rparr>
   \<and> (\<exists>results. fst (check_and_send_alerts gateways_outage_env sample_py 0 empty_world
         sample_reading ''critical'' []) = Inr (AlertsSent results)
        \<and> map (\<lambda>(t, r, res). (t, r)) results =
            [(''email'', ''admin@example.com''), (''sms'', ''+1234567890'')]
        \<and> (''email'', ''admin@example.com'',
            SendError ''Error sending email alert: Connection refused'') \<in> set results
        \<and> (''sms'', ''+1234567890'',
            SendError ''Error sending SMS alert: Service unavailable'') \<in> set results)
   \<and> mail_attempts (snd (snd (check_and_send_alerts gateways_outage_env sample_py 0 empty_world
        sample_reading ''critical'' []))) =
       [(''admin@example.com'', email_body sample_py sample_reading ''critical'' [])]
   \<and> sms_attempts (snd (snd (check_and_send_alerts gateways_outage_env sample_py 0 empty_world
        sample_reading ''critical'' []))) =
       [(''+1234567890'', sms_body sample_py sample_reading ''critical'' [])]
   \<and> (\<exists>a. a \<in> set (alert_logs (snd (snd (check_and_send_alerts gateways_outage_env sample_py 0
                 empty_world sample_reading ''critical'' []))))
        \<and> reading_id a = 1 \<and> alert_type a = ''email'' \<and> al_alert_level a = ''critical''
        \<and> recipient a = ''admin@example.com'' \<and> \<not> success a
        \<and> error_message a = Some ''Error sending email alert: Connection refused'')
   \<and> (\<exists>a. a \<in> set (alert_logs (snd (snd (check_and_send_alerts gateways_outage_env sample_py 0
                 empty_world sample_reading ''critical'' []))))
        \<and> reading_id a = 1 \<and> alert_type a = ''sms'' \<and> al_alert_level a = ''critical''
        \<and> recipient a = ''+1234567890'' \<and> \<not> success a
        \<and> error_message a = Some ''Error sending SMS alert: Service unavailable'')"
proof -
  have l: "''critical'' \<noteq> ''normal''" by simp
  have s: "\<not> alert_sent sample_reading" by (simp add: sample_reading_def)
  have f: "\<not> check_alert_fatigue gateways_outage_env 0 empty_world ''critical''"
    by (rule empty_world_not_fatigued)
  have c: "sent_commit gateways_outage_env = None"
    by (simp add: gateways_outage_env_def sample_alert_env_def)
  have env: "MAIL_USERNAME gateways_outage_env \<noteq> None"
    "MAIL_USERNAME gateways_outage_env \<noteq> Some []"
    "mail_send gateways_outage_env ''admin@example.com'' = Some (PyExn ''Connection refused'')"
    "twilio_client gateways_outage_env"
    "messages_create gateways_outage_env ''+1234567890'' = Inl (PyExn ''Service unavailable'')"
    "\<forall>row. log_commit gateways_outage_env row = None"
    by (simp_all add: gateways_outage_env_def sample_alert_env_def)
  have w: "mail_attempts empty_world = []" "sms_attempts empty_world = []"
    "sr_id sample_reading = 1"
    by (simp_all add: empty_world_def sample_reading_def)
  from dispatch_marks_sent_despite_failures[OF l s f c, of sample_py "[]"
      "PyExn ''Connection refused''" "PyExn ''Service unavailable''"]
  show ?thesis
    by (simp add: env w)
qed

text \<open>
  Claim C10. When the count query of the fatigue gate raises, the gate answers that there
  is no fatigue, at every level; the dispatch of a reading that is not marked sent, at a
  level other than \<^verbatim>\<open>normal\<close>, then returns no message dict (it is not suppressed) and,
  the mail being configured, hands the e-mail to the gateway.
\<close>

theorem fatigue_gate_fails_open:
  assumes "fatigue_count env = Some e"
  shows "\<not> check_alert_fatigue env now w level
       \<and> (level \<noteq> ''normal'' \<and> \<not> alert_sent reading \<longrightarrow>
            (\<forall>m. fst (check_and_send_alerts env p now w reading level messages) \<noteq> Inr (Message m))
            \<and> (MAIL_USERNAME env \<noteq> None \<and> MAIL_USERNAME env \<noteq> Some [] \<longrightarrow>
                 (''admin@example.com'', email_body p reading level messages)
                   \<in> set (mail_attempts (snd (snd
                        (check_and_send_alerts env p now w reading level messages))))))"
proof -
  have nf: "\<not> check_alert_fatigue env now w level"
    using assms by (simp add: check_alert_fatigue_def)
  show ?thesis
  proof (intro conjI impI allI)
    show "\<not> check_alert_fatigue env now w level" by (rule nf)
  next
    fix m
    assume a: "level \<noteq> ''normal'' \<and> \<not> alert_sent reading"
    then have l: "level \<noteq> ''normal''" and s: "\<not> alert_sent reading" by simp_all
    show "fst (check_and_send_alerts env p now w reading level messages) \<noteq> Inr (Message m)"
    proof (cases "sent_commit env")
      case None
      from dispatch_send_path(1)[OF l s nf None, of p messages] show ?thesis by simp
    next
      case (Some x)
      from dispatch_send_path(2)[OF l s nf Some, of p messages] show ?thesis by simp
    qed
  next
    assume a: "level \<noteq> ''normal'' \<and> \<not> alert_sent reading"
       and m: "MAIL_USERNAME env \<noteq> None \<and> MAIL_USERNAME env \<noteq> Some []"
    from a have l: "level \<noteq> ''normal''" and s: "\<not> alert_sent reading" by simp_all
    show "(''admin@example.com'', email_body p reading level messages)
            \<in> set (mail_attempts (snd (snd
                 (check_and_send_alerts env p now w reading level messages))))"
      unfolding dispatch_world_lists(2)[OF l s nf] world_after_sends_mail
      using m by (simp add: send_email_alert_attempt)
  qed
qed

theorem fatigue_gate_fails_open_witness:
  "5 \<le> recent_alerts 0 fatigued_world ''warning''
   \<and> \<not> check_alert_fatigue store_outage_env 0 fatigued_world ''warning''
   \<and> (\<forall>m. fst (check_and_send_alerts store_outage_env sample_py 0 fatigued_world sample_reading
               ''warning'' []) \<noteq> Inr (Message m))
   \<and> (''admin@example.com'', email_body sample_py sample_reading ''warning'' [])
       \<in> set (mail_attempts (snd (snd (check_and_send_alerts store_outage_env sample_py 0
                  fatigued_world sample_reading ''warning'' []))))"
proof -
  have q: "fatigue_count store_outage_env = Some (PyExn ''database is locked'')"
    by (simp add: store_outage_env_def)
  have a: "''warning'' \<noteq> ''normal'' \<and> \<not> alert_sent sample_reading"
    by (simp add: sample_reading_def)
  have m: "MAIL_USERNAME store_outage_env \<noteq> None \<and> MAIL_USERNAME store_outage_env \<noteq> Some []"
    by (simp add: store_outage_env_def sample_alert_env_def)
  have n: "5 \<le> recent_alerts 0 fatigued_world ''warning''"
    by (simp add: fatigued_world_count)
  from fatigue_gate_fails_open[OF q, of 0 fatigued_world "''warning''" sample_reading sample_py "[]"]
    a m n
  show ?thesis by blast
qed

section \<open>The classifier store and the scorer\<close>

lemma length_training_readings:
  "length (training_readings now w) =
     min 1000 (length (filter (\<lambda>r. timestamp r \<ge> now - timedelta_days 7) (sensor_readings w)))"
  by (simp add: training_readings_def ML_TRAINING_DATA_SIZE_def Let_def min.commute)

lemma training_readings_ml_models:
  "training_readings now (w\<lparr>ml_models := ms\<rparr>) = training_readings now w"
  by (simp add: training_readings_def)

lemma train_model_query_raises:
  "readings_query env = Some e \<Longrightarrow>
   train_model env p now hp pre ty ps (self, w) = (MLError (exn_str e), self, w)"
  by (simp add: train_model_def)

lemma train_model_insufficient:
  "readings_query env = None \<Longrightarrow> length (training_readings now w) < 50 \<Longrightarrow>
   train_model env p now hp pre ty ps (self, w) = (MLError ''Insufficient training data'', self, w)"
  by (simp add: train_model_def)

lemma train_model_few:
  assumes "length (training_readings now w) < 50"
  shows "\<exists>msg. train_model env p now hp pre ty ps (self, w) = (MLError msg, self, w)"
proof (cases "readings_query env")
  case None
  then show ?thesis using assms by (simp add: train_model_insufficient)
next
  case (Some e)
  then show ?thesis by (simp add: train_model_query_raises)
qed

lemma train_model_success:
  assumes "readings_query env = None" and "50 \<le> length (training_readings now w)"
      and "sk_fit_transform env (map features_of (training_readings now w)) = Inr Xs"
      and "sk_fit env hp Xs = None" and "sk_predict env hp Xs Xs = Inr preds"
      and "sk_decision_function env hp Xs Xs = Inr scores"
      and "\<forall>row. model_commit env row = None"
  shows "train_model env p now hp pre ty ps (self, w) =
           (Trained ty (length (training_readings now w)) (length (filter (\<lambda>q. q = - 1) preds))
              (next_id (map ml_id (ml_models w))),
            \<lparr>model = Some \<lparr>hyper = hp, fitted_X = Some Xs\<rparr>,
             scaler = Some (StandardScaler (Some (map features_of (training_readings now w))))\<rparr>,
            w\<lparr>ml_models := ml_models w @
                 [\<lparr>ml_id = next_id (map ml_id (ml_models w)),
                   model_name = pre @ strftime p now ''%Y%m%d_%H%M%S'',
                   model_type = ty,
                   training_data_size = length (training_readings now w),
                   accuracy_score = None, created_at = now, is_active = True,
                   model_params = ps\<rparr>]\<rparr>)"
  using assms by (simp add: train_model_def prepare_training_data_def Let_def)

lemma retrain_due_train_insufficient:
  assumes "models_query env = None" and "latest_active w self_model_type = Some m"
      and "now - created_at m > ML_MODEL_RETRAIN_INTERVAL"
      and "deactivate_commit env = None" and "readings_query env = None"
      and "length (training_readings now (deactivate (ml_id m) w)) < 50"
  shows "retrain_if_needed env p now (self, w) =
           (MLError ''Insufficient training data'', self, deactivate (ml_id m) w)"
  using assms
  by (simp add: retrain_if_needed_def Let_def train_isolation_forest_def train_model_insufficient)

lemma training_world_readings: "length (training_readings 0 training_world) = 50"
  by (simp add: length_training_readings training_world_def empty_world_def sample_reading_def
      timedelta_days_def)

lemma empty_world_readings: "length (training_readings now empty_world) = 0"
  by (simp add: length_training_readings empty_world_def)

text \<open>
  Claim C7. When fewer than fifty readings lie in the seven-day window, both training
  methods return an error dict, write no \<^verbatim>\<open>MLModel\<close> row and leave \<^verbatim>\<open>self.model\<close> and
  \<^verbatim>\<open>self.scaler\<close> as they were (the service and the store are returned unchanged); when
  the query of the readings returns, the error is \<^verbatim>\<open>Insufficient training data\<close>.
\<close>

theorem train_insufficient_data:
  assumes "length (filter (\<lambda>r. timestamp r \<ge> now - timedelta_days 7) (sensor_readings w)) < 50"
  shows "(\<exists>msg. train_isolation_forest env p now (self, w) c = (MLError msg, self, w))
       \<and> (\<exists>msg. train_one_class_svm env p now (self, w) n = (MLError msg, self, w))
       \<and> (readings_query env = None \<longrightarrow>
            train_isolation_forest env p now (self, w) c =
              (MLError ''Insufficient training data'', self, w)
            \<and> train_one_class_svm env p now (self, w) n =
              (MLError ''Insufficient training data'', self, w))"
proof -
  have few: "length (training_readings now w) < 50"
    using assms by (simp add: length_training_readings)
  show ?thesis
    unfolding train_isolation_forest_def train_one_class_svm_def
    using few by (simp add: train_model_few train_model_insufficient)
qed

theorem train_insufficient_data_witness:
  "train_isolation_forest sample_ml_env sample_py 0 (new_service, empty_world) 0.1 =
     (MLError ''Insufficient training data'', new_service, empty_world)
   \<and> train_one_class_svm sample_ml_env sample_py 0 (new_service, empty_world) 0.1 =
     (MLError ''Insufficient training data'', new_service, empty_world)"
proof -
  have few: "length (filter (\<lambda>r. timestamp r \<ge> 0 - timedelta_days 7)
               (sensor_readings empty_world)) < 50"
    by (simp add: empty_world_def)
  have q: "readings_query sample_ml_env = None" by (simp add: sample_ml_env_def)
  from train_insufficient_data[OF few, of sample_ml_env sample_py new_service "0.1" "0.1"] q
  show ?thesis by blast
qed

lemma train_model_fit_raises:
  assumes "readings_query env = None" and "50 \<le> length (training_readings now w)"
      and "sk_fit_transform env (map features_of (training_readings now w)) = Inr Xs"
      and "sk_fit env hp Xs = Some e"
  shows "train_model env p now hp pre ty ps (self, w) =
           (MLError (exn_str e),
            \<lparr>model = Some \<lparr>hyper = hp, fitted_X = None\<rparr>,
             scaler = Some (StandardScaler (Some (map features_of (training_readings now w))))\<rparr>,
            w)"
  using assms by (simp add: train_model_def prepare_training_data_def Let_def)

text \<open>
  What holds of \<^verbatim>\<open>predict_anomaly\<close>: a service without a model trains first, and the
  error dict of the training gives \<^verbatim>\<open>(False, 0.0)\<close>; with a model and a scaler that pass
  the guard, an exception of the \<^verbatim>\<open>try\<close> block gives \<^verbatim>\<open>(False, 0.0)\<close>.
\<close>

lemma predict_anomaly_lazy_training_fails:
  assumes "model self = None"
      and "is_error (fst (train_isolation_forest env p now (self, w) 0.1))"
  shows "predict_anomaly env p now (self, w) reading =
           (Inr (False, 0), snd (train_isolation_forest env p now (self, w) 0.1))"
  using assms
  by (simp add: predict_anomaly_def model_or_scaler_missing_def Let_def split_beta)

lemma predict_anomaly_scoring_raises:
  assumes "model_or_scaler_missing self = Inr False"
      and "score_reading env self reading = Inl e"
  shows "predict_anomaly env p now (self, w) reading = (Inr (False, 0), self, w)"
  using assms by (simp add: predict_anomaly_def Let_def)

text \<open>
  Claim C8, at the input where the code leaves the claim. A new service trains the
  Isolation Forest on fifty recent readings, and \<^verbatim>\<open>fit\<close> raises (a contamination of 0.7 is
  out of range): the training returns its error dict and leaves in \<^verbatim>\<open>self.model\<close> the
  estimator that was never fitted. On that service \<^verbatim>\<open>predict_anomaly\<close> raises: its guard
  asks the estimator for its truth value before the \<^verbatim>\<open>try\<close> block is entered. Nothing is
  trained and nothing is scored.
\<close>

theorem predict_anomaly_raises_after_failed_fit:
  "let (r1, sw1) =
         train_isolation_forest fit_outage_env sample_py 0 (new_service, training_world) 0.7
   in is_error r1
      \<and> model (fst sw1) = Some \<lparr>hyper = IsolationForest 0.7 42 100, fitted_X = None\<rparr>
      \<and> predict_anomaly sample_ml_env sample_py 0 sw1 sample_reading =
          (Inl (PyExn ''IsolationForest object has no attribute estimators_''), sw1)"
proof -
  let ?X = "map features_of (training_readings 0 training_world)"
  have env: "readings_query fit_outage_env = None" "sk_fit_transform fit_outage_env ?X = Inr ?X"
    "\<And>hp. sk_fit fit_outage_env hp ?X =
       Some (PyExn ''The contamination parameter must be in (0, 0.5]'')"
    by (simp_all add: fit_outage_env_def sample_ml_env_def)
  have n: "50 \<le> length (training_readings 0 training_world)"
    by (simp add: training_world_readings)
  note t = train_model_fit_raises[OF env(1) n env(2) env(3)]
  show ?thesis
    apply (simp only: train_isolation_forest_def t Let_def prod.case fst_conv)
    apply (simp add: is_error_def predict_anomaly_def model_or_scaler_missing_def
        estimator_bool_def)
    done
qed

text \<open>
  Claim C1, at the input where the code leaves the claim. A new service trains the
  Isolation Forest twice on a store of fifty recent readings, with nothing failing: both
  calls return the dict of a trained model, and the rows 1 and 2 of the type
  \<^verbatim>\<open>IsolationForest\<close> are both active afterwards. Neither training method clears
  \<^verbatim>\<open>is_active\<close> of an older row; \<^verbatim>\<open>retrain_if_needed\<close> does so before it trains.
\<close>

theorem train_twice_two_active_snapshots:
  "let (r1, sw1) = train_isolation_forest sample_ml_env sample_py 0 (new_service, training_world) 0.1;
       (r2, sw2) = train_isolation_forest sample_ml_env sample_py 0 sw1 0.1
   in \<not> is_error r1 \<and> \<not> is_error r2
      \<and> map ml_id (active_snapshots (snd sw2) ''IsolationForest'') = [1, 2]"
proof -
  let ?X = "map features_of (training_readings 0 training_world)"
  have env: "readings_query sample_ml_env = None" "sk_fit_transform sample_ml_env ?X = Inr ?X"
    "\<And>hp. sk_fit sample_ml_env hp ?X = None"
    "\<And>hp. sk_predict sample_ml_env hp ?X ?X = Inr (map (\<lambda>x. 1) ?X)"
    "\<And>hp. sk_decision_function sample_ml_env hp ?X ?X = Inr (map (\<lambda>x. 0.1) ?X)"
    "\<forall>row. model_commit sample_ml_env row = None"
    by (simp_all add: sample_ml_env_def)
  have n: "50 \<le> length (training_readings 0 training_world)"
    by (simp add: training_world_readings)
  note first = train_model_success[OF env(1) n env(2) env(3) env(4) env(5) env(6)]
  have n2: "50 \<le> length (training_readings 0 (training_world\<lparr>ml_models := ms\<rparr>))" for ms
    by (simp add: training_readings_ml_models training_world_readings)
  have env2: "sk_fit_transform sample_ml_env
      (map features_of (training_readings 0 (training_world\<lparr>ml_models := ms\<rparr>))) = Inr ?X" for ms
    by (simp add: training_readings_ml_models env(2))
  note second = train_model_success[OF env(1) n2 env2 env(3) env(4) env(5) env(6)]
  show ?thesis
    apply (simp only: train_isolation_forest_def first Let_def prod.case snd_conv second)
    apply (simp add: is_error_def active_snapshots_def next_id_def training_world_def
        empty_world_def)
    done
qed

text \<open>
  Claim C2, at the input where the code leaves the claim. The only active Isolation
  Forest row is 25 hours old and the store has no reading. \<^verbatim>\<open>retrain_if_needed\<close> commits
  the deactivation of the row and then trains; the training returns
  \<^verbatim>\<open>Insufficient training data\<close>, and the call ends with the old row inactive and no
  active row of the type.
\<close>

theorem retrain_failure_leaves_no_active_snapshot:
  "latest_active stale_world ''IsolationForest'' = Some old_snapshot
   \<and> (let (r, self', w') =
            retrain_if_needed sample_ml_env sample_py (timedelta_hours 25) (new_service, stale_world)
      in r = MLError ''Insufficient training data''
         \<and> ml_models w' = [old_snapshot\<lparr>is_active := False\<rparr>]
         \<and> latest_active w' ''IsolationForest'' = None)"
proof -
  have la: "latest_active stale_world ''IsolationForest'' = Some old_snapshot"
    by (simp add: latest_active_def stale_world_def empty_world_def old_snapshot_def)
  have la': "latest_active stale_world self_model_type = Some old_snapshot"
    using la by (simp add: self_model_type_def)
  have few: "length (training_readings (timedelta_hours 25)
               (deactivate (ml_id old_snapshot) stale_world)) < 50"
    by (simp add: length_training_readings deactivate_def stale_world_def empty_world_def)
  have q: "readings_query sample_ml_env = None" "models_query sample_ml_env = None"
    "deactivate_commit sample_ml_env = None"
    by (simp_all add: sample_ml_env_def)
  have due: "timedelta_hours 25 - created_at old_snapshot > ML_MODEL_RETRAIN_INTERVAL"
    by (simp add: old_snapshot_def ML_MODEL_RETRAIN_INTERVAL_def timedelta_hours_def)
  note r = retrain_due_train_insufficient[OF q(2) la' due q(3) q(1) few,
      of sample_py new_service]
  have after: "ml_models (deactivate (ml_id old_snapshot) stale_world) =
               [old_snapshot\<lparr>is_active := False\<rparr>]"
    by (simp add: deactivate_def stale_world_def empty_world_def old_snapshot_def)
  show ?thesis
    unfolding r using la after by (simp add: latest_active_def)
qed

end
